theory Spec2Isabelle
  imports Main
begin

section \<open>Graph model\<close>

text \<open>
  Modelled from the spec: the \<open>State\<close> class (imported from \<open>./state\<close>) is not among
  the sources. The spec gives its shape as \<open>{ name: string, isActive: bool }\<close>; that is
  all the manager reads or writes of a State. State objects are mutable and shared by
  reference (the \<open>states\<close> array, \<open>currentState\<close> and \<open>previousState\<close> alias them), so
  they live in an object store and are referred to by address.
\<close>

record State =
  name :: string
  isActive :: bool

text \<open>
  \<open>Transition.condition\<close> is a closure \<open>() => boolean\<close>. Two shapes occur in the sources:
  the closure built by \<open>initializeWorkflow\<close>, which looks a rule up by name in the rule
  engine when it is called, and a closure handed to \<open>addTransition\<close> directly. The second
  is represented by the boolean it returns.
\<close>

datatype guard = RuleRef string | Closure bool

record Transition =
  from_name :: string
  to_name :: string
  condition :: guard

section \<open>Errors and observable effects\<close>

text \<open>
  \<open>InvalidTransition s\<close> is \<open>WorkflowError('Cannot transition to state: ' + s)\<close>,
  \<open>NoPreviousState\<close> is \<open>WorkflowError('No previous state to rollback to')\<close>,
  \<open>RuleNotFound r\<close> is \<open>Error('Rule ' + r + ' not found')\<close>, \<open>NullDereference\<close> is the
  TypeError of a property access on \<open>null\<close>, and \<open>NotConnected\<close> is
  \<open>Error('Database not connected')\<close>.
\<close>

datatype error =
  InvalidTransition string
  | NoPreviousState
  | RuleNotFound string
  | NullDereference
  | NotConnected

datatype payload = TransitionPayload string string | EventPayload string

text \<open>
  Calls to the side-channel collaborators are recorded in order: \<open>WorkflowMonitor\<close>,
  \<open>Webhook.send\<close>, \<open>ErrorHandler.handleError\<close> and the listeners of the event manager
  (a listener is identified by a number and assumed not to throw).
  The rule engine and the event manager keep their entries in plain objects; rule and
  event names are taken not to be property names of \<open>Object.prototype\<close> (such as
  \<open>constructor\<close> or \<open>toString\<close>), for which a lookup finds an inherited function.
\<close>

datatype effect =
  StateChangeLogged string string
  | EventTriggerLogged string
  | WebhookSent string payload
  | ErrorHandled error
  | ListenerCalled nat

section \<open>Storage backends\<close>

text \<open>
  \<open>MemoryStorage\<close> is a dictionary. The networked backends are represented by their
  key-value content, each call taken to complete before the next operation; a
  \<open>MongoStorage\<close> whose \<open>db\<close> is still \<open>null\<close> is \<open>MongoStorage None\<close>. \<open>NoStorage\<close> is the
  \<open>undefined\<close> storage field left by an unrecognised \<open>storageType\<close>.
\<close>

datatype storage =
  MemoryStorage "string \<rightharpoonup> string"
  | MongoStorage "((string \<times> string) \<rightharpoonup> string) option"
  | RedisStorage "string \<rightharpoonup> string"
  | NoStorage

section \<open>The workflow manager\<close>

text \<open>
  A timeout armed with \<open>setTimeout\<close>: its handle, the \<open>stateName\<close> captured by the
  callback, and the delay. When the runtime runs it is not modelled; firing a pending
  timeout is an explicit operation.
\<close>

record timeout =
  handle :: nat
  target :: string
  delay :: int

record WorkflowManager =
  heap :: "nat \<Rightarrow> State"
  states :: "nat list"
  transitions :: "Transition list"
  currentState :: "nat option"
  previousState :: "nat option"
  storage :: storage
  timers :: "string \<rightharpoonup> nat"
  config :: "string \<rightharpoonup> string"
  rules :: "string \<rightharpoonup> bool"
  listeners :: "string \<Rightarrow> nat list"
  pending :: "timeout list"
  nextHandle :: nat
  trace :: "effect list"

definition emit :: "effect \<Rightarrow> WorkflowManager \<Rightarrow> WorkflowManager" where
  "emit e w = w\<lparr>trace := trace w @ [e]\<rparr>"

definition setActive :: "nat \<Rightarrow> bool \<Rightarrow> (nat \<Rightarrow> State) \<Rightarrow> (nat \<Rightarrow> State)" where
  "setActive a b h = h(a := (h a)\<lparr>isActive := b\<rparr>)"

text \<open>
  The constructor without a workflow definition. The first argument is the merged
  configuration (\<open>defaultConfig\<close> is not among the sources), the second the object store.
\<close>

definition WorkflowManager_new :: "(string \<rightharpoonup> string) \<Rightarrow> (nat \<Rightarrow> State) \<Rightarrow> WorkflowManager" where
  "WorkflowManager_new cfg h =
     \<lparr>heap = h, states = [], transitions = [], currentState = None, previousState = None,
      storage = (if cfg ''storageType'' = Some ''memory'' then MemoryStorage Map.empty
                 else if cfg ''storageType'' = Some ''mongo'' then MongoStorage None
                 else if cfg ''storageType'' = Some ''redis'' then RedisStorage Map.empty
                 else NoStorage),
      timers = Map.empty, config = cfg, rules = Map.empty, listeners = (\<lambda>_. []),
      pending = [], nextHandle = 0, trace = []\<rparr>"

subsection \<open>Collaborators\<close>

definition logStateChange :: "string \<Rightarrow> string \<Rightarrow> WorkflowManager \<Rightarrow> WorkflowManager" where
  "logStateChange oldState newState w = emit (StateChangeLogged oldState newState) w"

definition logEventTrigger :: "string \<Rightarrow> WorkflowManager \<Rightarrow> WorkflowManager" where
  "logEventTrigger eventName w = emit (EventTriggerLogged eventName) w"

definition handleError :: "error \<Rightarrow> WorkflowManager \<Rightarrow> WorkflowManager" where
  "handleError e w = emit (ErrorHandled e) w"

definition Webhook_send :: "string \<Rightarrow> payload \<Rightarrow> WorkflowManager \<Rightarrow> WorkflowManager" where
  "Webhook_send url p w = emit (WebhookSent url p) w"

definition addRule :: "string \<Rightarrow> bool \<Rightarrow> WorkflowManager \<Rightarrow> WorkflowManager" where
  "addRule r b w = w\<lparr>rules := (rules w)(r \<mapsto> b)\<rparr>"

definition evaluateRule :: "string \<Rightarrow> WorkflowManager \<Rightarrow> error + bool" where
  "evaluateRule r w = (case rules w r of Some b \<Rightarrow> Inr b | None \<Rightarrow> Inl (RuleNotFound r))"

definition on :: "string \<Rightarrow> nat \<Rightarrow> WorkflowManager \<Rightarrow> WorkflowManager" where
  "on eventName callback w =
     w\<lparr>listeners := (listeners w)(eventName := listeners w eventName @ [callback])\<rparr>"

definition trigger :: "string \<Rightarrow> WorkflowManager \<Rightarrow> WorkflowManager" where
  "trigger eventName w = w\<lparr>trace := trace w @ map ListenerCalled (listeners w eventName)\<rparr>"

definition triggerEvent :: "string \<Rightarrow> WorkflowManager \<Rightarrow> WorkflowManager" where
  "triggerEvent eventName w =
     (let w1 = logEventTrigger eventName (trigger eventName w) in
      case config w1 ''webhookUrl'' of
        None \<Rightarrow> w1
      | Some url \<Rightarrow> if url \<noteq> [] then Webhook_send url (EventPayload eventName) w1 else w1)"

subsection \<open>Persistence\<close>

text \<open>
  \<open>saveState\<close> and \<open>saveVersion\<close> do not await the promise of a networked \<open>set\<close>: a
  rejected one (Mongo before \<open>connect\<close> has finished) is dropped and nothing is stored.
\<close>

definition storage_set :: "string \<Rightarrow> string \<Rightarrow> storage \<Rightarrow> storage" where
  "storage_set k v s =
     (case s of
        MemoryStorage m \<Rightarrow> MemoryStorage (m(k \<mapsto> v))
      | MongoStorage None \<Rightarrow> MongoStorage None
      | MongoStorage (Some db) \<Rightarrow> MongoStorage (Some (db((''workflow'', k) \<mapsto> v)))
      | RedisStorage m \<Rightarrow> RedisStorage (m(k \<mapsto> v))
      | NoStorage \<Rightarrow> NoStorage)"

definition storage_get :: "string \<Rightarrow> storage \<Rightarrow> error + string option" where
  "storage_get k s =
     (case s of
        MemoryStorage m \<Rightarrow> Inr (m k)
      | MongoStorage None \<Rightarrow> Inl NotConnected
      | MongoStorage (Some db) \<Rightarrow> Inr (db (''workflow'', k))
      | RedisStorage m \<Rightarrow> Inr (m k)
      | NoStorage \<Rightarrow> Inr None)"

definition saveState :: "string \<Rightarrow> WorkflowManager \<Rightarrow> WorkflowManager" where
  "saveState stateName w = w\<lparr>storage := storage_set ''currentState'' stateName (storage w)\<rparr>"

definition findState :: "string \<Rightarrow> WorkflowManager \<Rightarrow> nat option" where
  "findState stateName w = find (\<lambda>a. name (heap w a) = stateName) (states w)"

definition loadState :: "WorkflowManager \<Rightarrow> error + WorkflowManager" where
  "loadState w =
     (case storage_get ''currentState'' (storage w) of
        Inl e \<Rightarrow> Inl e
      | Inr v \<Rightarrow>
          (case v of
             None \<Rightarrow> Inr w
           | Some stateName \<Rightarrow>
               if stateName \<noteq> [] then
                 (case findState stateName w of
                    None \<Rightarrow> Inr w
                  | Some a \<Rightarrow> Inr (w\<lparr>heap := setActive a True (heap w), currentState := Some a\<rparr>))
               else Inr w))"

definition getVersion :: "WorkflowManager \<Rightarrow> string option" where
  "getVersion w = config w ''version''"

definition setVersion :: "string \<Rightarrow> WorkflowManager \<Rightarrow> WorkflowManager" where
  "setVersion v w = w\<lparr>config := (config w)(''version'' \<mapsto> v)\<rparr>"

definition saveVersion :: "string \<Rightarrow> WorkflowManager \<Rightarrow> WorkflowManager" where
  "saveVersion v w =
     (let w1 = setVersion v w in w1\<lparr>storage := storage_set ''version'' v (storage w1)\<rparr>)"

definition loadVersion :: "WorkflowManager \<Rightarrow> error + WorkflowManager" where
  "loadVersion w =
     (case storage_get ''version'' (storage w) of
        Inl e \<Rightarrow> Inl e
      | Inr v \<Rightarrow>
          (case v of
             None \<Rightarrow> Inr w
           | Some version \<Rightarrow> if version \<noteq> [] then Inr (setVersion version w) else Inr w))"

subsection \<open>Building the graph\<close>

definition addState :: "nat \<Rightarrow> WorkflowManager \<Rightarrow> WorkflowManager" where
  "addState a w =
     (let w1 = w\<lparr>states := states w @ [a]\<rparr> in
      case currentState w1 of
        None \<Rightarrow>
          saveState (name (heap w1 a))
            (w1\<lparr>currentState := Some a, heap := setActive a True (heap w1)\<rparr>)
      | Some c \<Rightarrow> w1)"

definition addTransition :: "Transition \<Rightarrow> WorkflowManager \<Rightarrow> WorkflowManager" where
  "addTransition t w = w\<lparr>transitions := transitions w @ [t]\<rparr>"

subsection \<open>Timers\<close>

text \<open>The body of the closure that \<open>setTimer\<close> hands to \<open>setTimeout\<close>.\<close>

definition timerCallback :: "string \<Rightarrow> WorkflowManager \<Rightarrow> WorkflowManager" where
  "timerCallback stateName w =
     (case findState stateName w of
        None \<Rightarrow> w
      | Some n \<Rightarrow>
          (let w1 = saveState (name (heap w n))
                      (w\<lparr>heap := setActive n True (heap w), currentState := Some n\<rparr>);
               w2 = logStateChange ''timed transition'' stateName w1;
               w3 = (case config w2 ''webhookUrl'' of
                       None \<Rightarrow> w2
                     | Some url \<Rightarrow>
                         if url \<noteq> []
                         then Webhook_send url (TransitionPayload ''timed transition'' stateName) w2
                         else w2)
           in triggerEvent (''transitionTo'' @ stateName) w3))"

definition setTimer :: "string \<Rightarrow> int \<Rightarrow> WorkflowManager \<Rightarrow> WorkflowManager" where
  "setTimer stateName d w =
     w\<lparr>pending := pending w @ [\<lparr>handle = nextHandle w, target = stateName, delay = d\<rparr>],
       nextHandle := Suc (nextHandle w),
       timers := (timers w)(stateName \<mapsto> nextHandle w)\<rparr>"

text \<open>\<open>clearTimeout\<close> of the runtime: a handle that is not pending is ignored.\<close>

definition clearTimeout :: "nat \<Rightarrow> WorkflowManager \<Rightarrow> WorkflowManager" where
  "clearTimeout h w = w\<lparr>pending := filter (\<lambda>t. handle t \<noteq> h) (pending w)\<rparr>"

definition clearTimer :: "string \<Rightarrow> WorkflowManager \<Rightarrow> WorkflowManager" where
  "clearTimer stateName w =
     (case timers w stateName of
        None \<Rightarrow> w
      | Some h \<Rightarrow> (clearTimeout h w)\<lparr>timers := (timers w)(stateName := None)\<rparr>)"

text \<open>
  The runtime firing the timeout with handle \<open>h\<close>: a one-shot timeout leaves the pending
  list and its callback runs. The \<open>timers\<close> dictionary of the manager is not touched.
\<close>

definition fireTimer :: "nat \<Rightarrow> WorkflowManager \<Rightarrow> WorkflowManager" where
  "fireTimer h w =
     (case find (\<lambda>t. handle t = h) (pending w) of
        None \<Rightarrow> w
      | Some t \<Rightarrow> timerCallback (target t) (clearTimeout h w))"

definition fireAll :: "WorkflowManager \<Rightarrow> WorkflowManager" where
  "fireAll w = fold fireTimer (map handle (pending w)) w"

subsection \<open>Transitions and rollback\<close>

definition canTransition :: "Transition \<Rightarrow> WorkflowManager \<Rightarrow> error + bool" where
  "canTransition t w = (case condition t of Closure b \<Rightarrow> Inr b | RuleRef r \<Rightarrow> evaluateRule r w)"

definition findTransition :: "string \<Rightarrow> WorkflowManager \<Rightarrow> Transition option" where
  "findTransition stateName w =
     find (\<lambda>t. (case currentState w of
                  None \<Rightarrow> False
                | Some c \<Rightarrow> from_name t = name (heap w c)) \<and> to_name t = stateName)
       (transitions w)"

text \<open>
  The statements of the \<open>if (transition && transition.canTransition())\<close> branch, after
  the guard has passed.
\<close>

definition applyTransition :: "string \<Rightarrow> int \<Rightarrow> WorkflowManager \<Rightarrow> WorkflowManager" where
  "applyTransition stateName d w =
     (let oldStateName = (case currentState w of Some c \<Rightarrow> name (heap w c) | None \<Rightarrow> ''none'');
          w1 = (case currentState w of
                  Some c \<Rightarrow> w\<lparr>heap := setActive c False (heap w)\<rparr>
                | None \<Rightarrow> w)
      in if d > 0 then setTimer stateName d w1
         else
           (let w2 = (case findState stateName w1 of
                        Some n \<Rightarrow>
                          saveState (name (heap w1 n))
                            (w1\<lparr>previousState := currentState w1,
                                heap := setActive n True (heap w1),
                                currentState := Some n\<rparr>)
                      | None \<Rightarrow> w1);
                w3 = logStateChange oldStateName stateName w2;
                w4 = (case config w3 ''webhookUrl'' of
                        None \<Rightarrow> w3
                      | Some url \<Rightarrow>
                          if url \<noteq> []
                          then Webhook_send url (TransitionPayload oldStateName stateName) w3
                          else w3)
            in triggerEvent (''transitionTo'' @ stateName) w4))"

text \<open>The \<open>try\<close> block of \<open>transitionTo\<close>: \<open>Inl\<close> is the error thrown inside it.\<close>

definition transitionTo_try :: "string \<Rightarrow> int \<Rightarrow> WorkflowManager \<Rightarrow> error + WorkflowManager" where
  "transitionTo_try stateName d w =
     (case findTransition stateName w of
        None \<Rightarrow> Inl (InvalidTransition stateName)
      | Some t \<Rightarrow>
          (case canTransition t w of
             Inl e \<Rightarrow> Inl e
           | Inr b \<Rightarrow>
               if b then Inr (applyTransition stateName d w)
               else Inl (InvalidTransition stateName)))"

definition rollback :: "WorkflowManager \<Rightarrow> error + WorkflowManager" where
  "rollback w =
     (case previousState w of
        None \<Rightarrow> Inl NoPreviousState
      | Some p \<Rightarrow>
          (case currentState w of
             None \<Rightarrow> Inl NullDereference
           | Some c \<Rightarrow>
               (let h = setActive p True (setActive c False (heap w)) in
                Inr (logStateChange ''rollback'' (name (h p))
                       (w\<lparr>heap := h, currentState := Some p, previousState := None\<rparr>)))))"

text \<open>
  \<open>transitionTo\<close> is an \<open>async\<close> function: the first component is how its promise
  settles (\<open>Inl e\<close>: rejected with \<open>e\<close>), the second the manager afterwards. The \<open>catch\<close>
  clause reports the error and calls \<open>rollback\<close>, whose own error escapes.
\<close>

definition transitionTo :: "string \<Rightarrow> int \<Rightarrow> WorkflowManager \<Rightarrow> (error + unit) \<times> WorkflowManager" where
  "transitionTo stateName d w =
     (case transitionTo_try stateName d w of
        Inr w' \<Rightarrow> (Inr (), w')
      | Inl e \<Rightarrow>
          (let w1 = handleError e w in
           case rollback w1 of
             Inl e' \<Rightarrow> (Inl e', w1)
           | Inr w2 \<Rightarrow> (Inr (), w2)))"

definition getCurrentState :: "WorkflowManager \<Rightarrow> State option" where
  "getCurrentState w = map_option (heap w) (currentState w)"

section \<open>Properties of interest\<close>

text \<open>
  The State objects of the \<open>states\<close> array whose \<open>isActive\<close> flag is set, each object
  counted once however often it was added.
\<close>

definition activeStates :: "WorkflowManager \<Rightarrow> nat list" where
  "activeStates w = filter (\<lambda>a. isActive (heap w a)) (remdups (states w))"

definition exactlyOneActive :: "WorkflowManager \<Rightarrow> bool" where
  "exactlyOneActive w = (length (activeStates w) = 1)"

text \<open>
  The current State is in the graph and is its only active State, and the State a
  rollback would restore is in the graph.
\<close>

definition currentOnlyActive :: "WorkflowManager \<Rightarrow> bool" where
  "currentOnlyActive w =
     ((case currentState w of None \<Rightarrow> False | Some c \<Rightarrow> activeStates w = [c]) \<and>
      (case previousState w of None \<Rightarrow> True | Some p \<Rightarrow> p \<in> set (states w)))"

text \<open>An edge from the current State to \<open>stateName\<close> is found and its guard returns true.\<close>

definition passingEdge :: "string \<Rightarrow> WorkflowManager \<Rightarrow> bool" where
  "passingEdge stateName w =
     (case findTransition stateName w of
        None \<Rightarrow> False
      | Some t \<Rightarrow> canTransition t w = Inr True)"

text \<open>What the storage holds under a key, when it can be read.\<close>

definition stored :: "string \<Rightarrow> WorkflowManager \<Rightarrow> string option" where
  "stored k w = (case storage_get k (storage w) of Inl e \<Rightarrow> None | Inr v \<Rightarrow> v)"


text \<open>The webhook calls a payload leads to under the manager's configuration.\<close>

definition webhookEffects :: "payload \<Rightarrow> WorkflowManager \<Rightarrow> effect list" where
  "webhookEffects p w =
     (case config w ''webhookUrl'' of
        None \<Rightarrow> []
      | Some url \<Rightarrow> if url \<noteq> [] then [WebhookSent url p] else [])"

text \<open>How often the timer callback has applied a transition to \<open>stateName\<close>.\<close>

definition timedFirings :: "string \<Rightarrow> WorkflowManager \<Rightarrow> nat" where
  "timedFirings stateName w =
     length (filter (\<lambda>e. e = StateChangeLogged ''timed transition'' stateName) (trace w))"

subsection \<open>Sequences of operations\<close>

datatype operation =
  AddState nat
  | AddTransition Transition
  | AddRule string bool
  | TransitionTo string int
  | Rollback
  | LoadState

text \<open>One call by the owner of the manager; a call that throws leaves what it had done.\<close>

fun step :: "operation \<Rightarrow> WorkflowManager \<Rightarrow> WorkflowManager" where
  "step (AddState a) w = addState a w"
| "step (AddTransition t) w = addTransition t w"
| "step (AddRule r b) w = addRule r b w"
| "step (TransitionTo s d) w = snd (transitionTo s d w)"
| "step Rollback w = (case rollback w of Inl e \<Rightarrow> w | Inr w' \<Rightarrow> w')"
| "step LoadState w = (case loadState w of Inl e \<Rightarrow> w | Inr w' \<Rightarrow> w')"

definition run :: "operation list \<Rightarrow> WorkflowManager \<Rightarrow> WorkflowManager" where
  "run ops w = fold step ops w"

text \<open>
  The calls under which the single active State is kept: a State object that is added
  is inactive unless it is in the graph already; a transition is immediate, and an edge
  that is taken leads to a name some State of the graph carries; \<open>loadState\<close> finds the
  stored name to be the current State's, or finds none.
\<close>

fun admissible :: "WorkflowManager \<Rightarrow> operation \<Rightarrow> bool" where
  "admissible w (AddState a) = (a \<in> set (states w) \<or> \<not> isActive (heap w a))"
| "admissible w (AddTransition t) = True"
| "admissible w (AddRule r b) = True"
| "admissible w (TransitionTo s d) = (d \<le> 0 \<and> (\<not> passingEdge s w \<or> findState s w \<noteq> None))"
| "admissible w Rollback = True"
| "admissible w LoadState =
     (case loadState w of Inl e \<Rightarrow> True | Inr w' \<Rightarrow> currentState w' = currentState w)"

fun admissible_run :: "WorkflowManager \<Rightarrow> operation list \<Rightarrow> bool" where
  "admissible_run w [] = True"
| "admissible_run w (x # xs) = (admissible w x \<and> admissible_run (step x w) xs)"

subsection \<open>The workflow of the test suite\<close>

text \<open>
  The State objects \<open>initial\<close>, \<open>in_progress\<close>, \<open>completed\<close> and \<open>review\<close> at the addresses
  0 to 3, none active yet, and the configuration the tests pass.
\<close>

definition demo_heap :: "nat \<Rightarrow> State" where
  "demo_heap = (\<lambda>_. \<lparr>name = [], isActive = False\<rparr>)
     (0 := \<lparr>name = ''initial'', isActive = False\<rparr>,
      1 := \<lparr>name = ''in_progress'', isActive = False\<rparr>,
      2 := \<lparr>name = ''completed'', isActive = False\<rparr>,
      3 := \<lparr>name = ''review'', isActive = False\<rparr>)"

definition demo_config :: "string \<rightharpoonup> string" where
  "demo_config = [''storageType'' \<mapsto> ''memory'', ''version'' \<mapsto> ''1.0.0'',
                  ''webhookUrl'' \<mapsto> ''http://webhook.url'']"

definition demo :: WorkflowManager where
  "demo =
     addRule ''true'' True
       (addTransition
          \<lparr>from_name = ''in_progress'', to_name = ''completed'', condition = RuleRef ''true''\<rparr>
          (addTransition
             \<lparr>from_name = ''initial'', to_name = ''in_progress'', condition = RuleRef ''true''\<rparr>
             (addState 2 (addState 1 (addState 0 (WorkflowManager_new demo_config demo_heap))))))"

text \<open>The same workflow after \<open>transitionTo('in_progress')\<close>.\<close>

definition demo_in_progress :: WorkflowManager where
  "demo_in_progress = snd (transitionTo ''in_progress'' 0 demo)"

text \<open>
  Further scenarios: two delayed transitions to \<open>completed\<close> requested in a row; the
  workflow of the test "should handle errors and rollback", with an edge to a name no
  State carries, after its first transition; an edge guarded by an always-false rule; and
  a delayed transition that an immediate one overtakes.
\<close>

definition demo_rescheduled :: WorkflowManager where
  "demo_rescheduled =
     snd (transitionTo ''completed'' 500 (snd (transitionTo ''completed'' 500 demo_in_progress)))"

definition demo_faulty :: WorkflowManager where
  "demo_faulty =
     snd (transitionTo ''in_progress'' 0
       (addTransition
          \<lparr>from_name = ''in_progress'', to_name = ''invalid_state'', condition = Closure True\<rparr>
          demo))"

definition demo_guarded :: WorkflowManager where
  "demo_guarded =
     addRule ''canStart'' False
       (addTransition
          \<lparr>from_name = ''initial'', to_name = ''in_progress'', condition = RuleRef ''canStart''\<rparr>
          (addState 1 (addState 0 (WorkflowManager_new demo_config demo_heap))))"

definition demo_review :: WorkflowManager where
  "demo_review =
     addTransition \<lparr>from_name = ''initial'', to_name = ''review'', condition = Closure True\<rparr>
       (addState 3 demo)"

definition demo_overtaken :: WorkflowManager where
  "demo_overtaken =
     snd (transitionTo ''review'' 0 (snd (transitionTo ''in_progress'' 1000 demo_review)))"


definition demo_scheduled :: WorkflowManager where
  "demo_scheduled = snd (transitionTo ''in_progress'' 1000 demo)"

text \<open>A run of immediate transitions, one of them rejected, with a State added on the way.\<close>

definition demo_ops :: "operation list" where
  "demo_ops = [TransitionTo ''in_progress'' 0, LoadState, TransitionTo ''review'' 0,
               AddState 3, TransitionTo ''in_progress'' 0, TransitionTo ''completed'' 0]"

section \<open>Basic facts\<close>

lemmas demo_defs =
  demo_def demo_heap_def demo_config_def demo_in_progress_def WorkflowManager_new_def
  demo_rescheduled_def demo_faulty_def demo_guarded_def demo_review_def demo_overtaken_def
  demo_scheduled_def demo_ops_def

lemmas op_defs =
  addRule_def addTransition_def addState_def saveState_def storage_set_def storage_get_def
  setActive_def Let_def transitionTo_def transitionTo_try_def findTransition_def
  canTransition_def evaluateRule_def applyTransition_def findState_def logStateChange_def
  emit_def triggerEvent_def trigger_def logEventTrigger_def Webhook_send_def handleError_def
  rollback_def setTimer_def clearTimer_def clearTimeout_def fireTimer_def timerCallback_def
  loadState_def loadVersion_def saveVersion_def setVersion_def getVersion_def

lemma filter_single_iff:
  "distinct xs \<Longrightarrow>
   (filter P xs = [c]) = (c \<in> set xs \<and> (\<forall>a\<in>set xs. P a = (a = c)))"
proof (induction xs)
  case Nil
  then show ?case by simp
next
  case (Cons x xs)
  then show ?case
    by (auto simp: filter_empty_conv)
qed

lemma activeStates_single_iff:
  "(activeStates w = [c]) =
   (c \<in> set (states w) \<and> (\<forall>a\<in>set (states w). isActive (heap w a) = (a = c)))"
  using filter_single_iff [of "remdups (states w)" "\<lambda>a. isActive (heap w a)" c]
  by (simp add: activeStates_def)

lemma currentOnlyActive_iff:
  "currentOnlyActive w =
   ((\<exists>c. currentState w = Some c \<and> c \<in> set (states w) \<and>
         (\<forall>a\<in>set (states w). isActive (heap w a) = (a = c))) \<and>
    (\<forall>p. previousState w = Some p \<longrightarrow> p \<in> set (states w)))"
  by (auto simp: currentOnlyActive_def activeStates_single_iff split: option.splits)

lemma currentOnlyActive_exactlyOneActive: "currentOnlyActive w \<Longrightarrow> exactlyOneActive w"
  by (auto simp: currentOnlyActive_def exactlyOneActive_def split: option.splits)

lemma triggerEvent_eq:
  "triggerEvent ev w =
   w\<lparr>trace := trace w @ map ListenerCalled (listeners w ev) @
              EventTriggerLogged ev # webhookEffects (EventPayload ev) w\<rparr>"
  by (simp add: triggerEvent_def trigger_def logEventTrigger_def emit_def Webhook_send_def
      webhookEffects_def Let_def split: option.splits)

lemma name_setActive [simp]: "name (setActive a b h x) = name (h x)"
  by (simp add: setActive_def)

lemma isActive_setActive [simp]: "isActive (setActive a b h x) = (if x = a then b else isActive (h x))"
  by (simp add: setActive_def)

lemma findState_in_states: "findState s w = Some n \<Longrightarrow> n \<in> set (states w) \<and> name (heap w n) = s"
  by (auto simp: findState_def find_Some_iff)

lemma applyTransition_immediate:
  assumes "d \<le> 0" "currentState w = Some c" "findState s w = Some n"
  shows "applyTransition s d w =
     w\<lparr>previousState := Some c,
       heap := setActive n True (setActive c False (heap w)),
       currentState := Some n,
       storage := storage_set ''currentState'' s (storage w),
       trace := trace w @ StateChangeLogged (name (heap w c)) s #
                webhookEffects (TransitionPayload (name (heap w c)) s) w @
                map ListenerCalled (listeners w (''transitionTo'' @ s)) @
                EventTriggerLogged (''transitionTo'' @ s) #
                webhookEffects (EventPayload (''transitionTo'' @ s)) w\<rparr>"
proof -
  have f: "findState s (w\<lparr>heap := setActive c False (heap w)\<rparr>) = Some n"
    using assms(3) by (simp add: findState_def)
  have nm: "name (heap w n) = s"
    using assms(3) by (simp add: findState_in_states)
  show ?thesis
    using assms(1,2) f nm
    by (simp add: applyTransition_def Let_def triggerEvent_eq saveState_def logStateChange_def
        emit_def Webhook_send_def webhookEffects_def split: option.splits)
qed

lemma rollback_eq:
  assumes "previousState w = Some p" "currentState w = Some c"
  shows "rollback w =
     Inr (w\<lparr>heap := setActive p True (setActive c False (heap w)),
            currentState := Some p, previousState := None,
            trace := trace w @ [StateChangeLogged ''rollback'' (name (heap w p))]\<rparr>)"
  using assms by (simp add: rollback_def Let_def logStateChange_def emit_def)

lemma currentOnlyActive_rollback:
  assumes "currentOnlyActive w" "rollback w = Inr w'"
  shows "currentOnlyActive w'"
proof -
  from assms(2) obtain p where p: "previousState w = Some p"
    by (auto simp: rollback_def split: option.splits)
  from assms(1) obtain c where c: "currentState w = Some c"
    by (auto simp: currentOnlyActive_iff)
  from assms(2) rollback_eq [OF p c]
  have w': "w' = w\<lparr>heap := setActive p True (setActive c False (heap w)),
            currentState := Some p, previousState := None,
            trace := trace w @ [StateChangeLogged ''rollback'' (name (heap w p))]\<rparr>"
    by simp
  from assms(1) p c show ?thesis
    unfolding w' by (auto simp: currentOnlyActive_iff)
qed

lemma currentOnlyActive_trace [simp]: "currentOnlyActive (w\<lparr>trace := t\<rparr>) = currentOnlyActive w"
  by (simp add: currentOnlyActive_iff)

lemma currentOnlyActive_step_rollback: "currentOnlyActive w \<Longrightarrow> currentOnlyActive (step Rollback w)"
  by (auto split: sum.splits dest: currentOnlyActive_rollback)

lemma passingEdge_try:
  "transitionTo_try s d w = (if passingEdge s w then Inr (applyTransition s d w)
     else Inl (case findTransition s w of None \<Rightarrow> InvalidTransition s
               | Some t \<Rightarrow> (case canTransition t w of Inl e \<Rightarrow> e | Inr b \<Rightarrow> InvalidTransition s)))"
  by (auto simp: transitionTo_try_def passingEdge_def split: option.splits sum.splits)

lemma currentOnlyActive_transitionTo:
  assumes "currentOnlyActive w" "d \<le> 0" "\<not> passingEdge s w \<or> findState s w \<noteq> None"
  shows "currentOnlyActive (snd (transitionTo s d w))"
proof (cases "passingEdge s w")
  case True
  with assms(3) obtain n where n: "findState s w = Some n" by auto
  from assms(1) obtain c where c: "currentState w = Some c"
    by (auto simp: currentOnlyActive_iff)
  from n have "n \<in> set (states w)" by (simp add: findState_in_states)
  with assms(1) c have "currentOnlyActive (applyTransition s d w)"
    unfolding applyTransition_immediate [OF assms(2) c n]
    by (auto simp: currentOnlyActive_iff)
  with True show ?thesis
    by (simp add: transitionTo_def passingEdge_try)
next
  case False
  then obtain e where e: "transitionTo_try s d w = Inl e"
    by (simp add: passingEdge_try)
  have h: "currentOnlyActive (handleError e w)"
    using assms(1) by (simp add: handleError_def emit_def)
  show ?thesis
    using e h currentOnlyActive_rollback [of "handleError e w"]
    by (auto simp: transitionTo_def Let_def split: sum.splits)
qed

lemma currentOnlyActive_addState:
  assumes "currentOnlyActive w" "a \<in> set (states w) \<or> \<not> isActive (heap w a)"
  shows "currentOnlyActive (addState a w)"
proof -
  from assms(1) obtain c where c: "currentState w = Some c"
    by (auto simp: currentOnlyActive_iff)
  then have "addState a w = w\<lparr>states := states w @ [a]\<rparr>"
    by (simp add: addState_def Let_def)
  with assms c show ?thesis
    by (auto simp: currentOnlyActive_iff)
qed

lemma currentOnlyActive_loadState:
  assumes "currentOnlyActive w" "loadState w = Inr w'" "currentState w' = currentState w"
  shows "currentOnlyActive w'"
proof -
  from assms(1) obtain c where c: "currentState w = Some c"
    by (auto simp: currentOnlyActive_iff)
  from assms(2,3) c have "w' = w \<or> w' = w\<lparr>heap := setActive c True (heap w), currentState := Some c\<rparr>"
    by (auto simp: loadState_def split: sum.splits option.splits if_splits)
  with assms(1) c show ?thesis
    by (auto simp: currentOnlyActive_iff)
qed

lemma currentOnlyActive_step:
  assumes "currentOnlyActive w" "admissible w x"
  shows "currentOnlyActive (step x w)"
proof (cases x)
  case (AddState a)
  with assms show ?thesis by (simp add: currentOnlyActive_addState)
next
  case (AddTransition t)
  with assms show ?thesis by (simp add: addTransition_def currentOnlyActive_iff)
next
  case (AddRule r b)
  with assms show ?thesis by (simp add: addRule_def currentOnlyActive_iff)
next
  case (TransitionTo s d)
  with assms show ?thesis by (simp add: currentOnlyActive_transitionTo)
next
  case Rollback
  with assms show ?thesis by (simp only: currentOnlyActive_step_rollback)
next
  case LoadState
  with assms show ?thesis
    by (auto split: sum.splits intro: currentOnlyActive_loadState)
qed

lemma currentOnlyActive_run:
  "currentOnlyActive w \<Longrightarrow> admissible_run w xs \<Longrightarrow> currentOnlyActive (run xs w)"
  by (induction xs arbitrary: w) (simp_all add: run_def currentOnlyActive_step)

lemma admissible_run_take:
  "admissible_run w xs \<Longrightarrow> admissible_run w (take k xs)"
proof (induction xs arbitrary: w k)
  case Nil
  then show ?case by simp
next
  case (Cons x xs)
  then show ?case by (cases k) simp_all
qed






lemma fireTimer_previousState: "previousState (fireTimer h v) = previousState v"
  by (simp add: fireTimer_def timerCallback_def clearTimeout_def findState_def Let_def
      triggerEvent_eq saveState_def logStateChange_def emit_def Webhook_send_def
      split: option.splits)

lemma rollback_storage: "rollback w = Inr w' \<Longrightarrow> storage w' = storage w"
  by (auto simp: rollback_def logStateChange_def emit_def Let_def split: option.splits)

section \<open>The single active State\<close>

text \<open>
  Claim C1 (invariant I1) says that over every sequence of \<open>addState\<close>, \<open>transitionTo\<close>
  (with or without delay), \<open>rollback\<close> and \<open>loadState\<close> exactly one State of the graph is
  active before and after each \<open>transitionTo\<close> call. It fails on the workflow of the test
  suite: \<open>transitionTo('in_progress', 1000)\<close> clears \<open>isActive\<close> of the current State
  before it arms the timer, so the call starts with one active State and ends with none.
\<close>

theorem C1_delayed_transition_leaves_none_active:
  "exactlyOneActive demo \<and>
   fst (transitionTo ''in_progress'' 1000 demo) = Inr () \<and>
   activeStates (snd (transitionTo ''in_progress'' 1000 demo)) = [] \<and>
   \<not> exactlyOneActive (snd (transitionTo ''in_progress'' 1000 demo))"
  by (simp add: demo_defs op_defs exactlyOneActive_def activeStates_def)

text \<open>
  Claim C1, amended. Starting from a manager whose current State is the only active
  State of the graph (and whose previous State, if any, is in the graph), every sequence of admissible calls (\<open>addState\<close> of a State object
  that is inactive or in the graph already, \<open>addTransition\<close>, \<open>addRule\<close>, \<open>transitionTo\<close>
  with delay 0 where an edge that is taken leads to a name some State carries,
  \<open>rollback\<close>, and \<open>loadState\<close> where the stored name is the current State's) keeps exactly
  one State active after each call, and that State is the current one.
\<close>

theorem C1_single_active_kept:
  assumes "currentOnlyActive w" "admissible_run w xs"
  shows "\<forall>k\<le>length xs. exactlyOneActive (run (take k xs) w) \<and>
                        currentOnlyActive (run (take k xs) w)"
proof (intro allI impI)
  fix k
  from assms have "currentOnlyActive (run (take k xs) w)"
    by (simp add: currentOnlyActive_run admissible_run_take)
  then show "exactlyOneActive (run (take k xs) w) \<and> currentOnlyActive (run (take k xs) w)"
    by (simp add: currentOnlyActive_exactlyOneActive)
qed

theorem C1_single_active_kept_witness:
  "currentOnlyActive demo \<and> admissible_run demo demo_ops \<and>
   exactlyOneActive (run demo_ops demo) \<and> activeStates (run demo_ops demo) = [2] \<and>
   exactlyOneActive (run (take 3 demo_ops) demo)"
proof -
  have w1: "currentOnlyActive demo"
    by (simp add: demo_defs op_defs currentOnlyActive_def activeStates_def)
  have w2: "admissible_run demo demo_ops"
    by (simp add: demo_defs op_defs passingEdge_def)
  have w3: "activeStates (run demo_ops demo) = [2]"
    by (simp add: run_def demo_defs op_defs activeStates_def)
  have l: "length demo_ops = 6"
    by (simp add: demo_ops_def)
  from C1_single_active_kept [OF w1 w2, rule_format, of 6] l
  have a: "exactlyOneActive (run demo_ops demo)" by simp
  from C1_single_active_kept [OF w1 w2, rule_format, of 3] l
  have b: "exactlyOneActive (run (take 3 demo_ops) demo)" by simp
  from a b w1 w2 w3 show ?thesis by simp
qed

text \<open>
  The calls left out of the admissible ones do lose the single active State:
  \<open>loadState\<close> after a rollback re-activates the State whose name is still stored, and a
  State object added with its flag already set stays active beside the current one.
  (An edge to a name no State carries is the subject of claim C4.)
\<close>

lemma single_active_lost:
  "activeStates (step LoadState (step Rollback demo_in_progress)) = [0, 1] \<and>
   activeStates (step (AddState 3) (demo\<lparr>heap := setActive 3 True (heap demo)\<rparr>)) = [0, 3]"
  by (simp add: demo_defs op_defs activeStates_def)

section \<open>Two timers for one target\<close>

text \<open>
  Claim C2 (invariant I3): scheduling a second delayed transition to a target replaces
  the pending timer, so the transition fires once. In the code \<open>setTimer\<close> overwrites
  \<open>timers[stateName]\<close> without \<open>clearTimeout\<close> on the handle it drops. After two
  \<open>transitionTo('completed', 500)\<close> calls from \<open>in_progress\<close> two timeouts for \<open>completed\<close>
  are pending, the dictionary knows the second handle only, and both fire.
\<close>

theorem C2_both_timers_fire:
  "map target (pending demo_rescheduled) = [''completed'', ''completed''] \<and>
   timers demo_rescheduled ''completed'' = Some 1 \<and>
   map handle (pending (clearTimer ''completed'' demo_rescheduled)) = [0] \<and>
   timedFirings ''completed'' (fireAll demo_rescheduled) = 2"
  by (simp add: demo_defs op_defs fireAll_def timedFirings_def)

section \<open>Rollback and the stored state name\<close>

text \<open>
  Claim C3: \<open>rollback()\<close> with a previous State deactivates the current State,
  re-activates the previous one, makes it current, clears \<open>previousState\<close>, persists the
  restored name and logs a change from the label \<open>rollback\<close>, without evaluating a guard.
  The code does all of it but the persisting: \<open>rollback\<close> never calls \<open>saveState\<close>. After
  \<open>transitionTo('in_progress')\<close> and \<open>rollback()\<close> the current State is \<open>initial\<close> again and
  the storage still holds \<open>in_progress\<close>.
\<close>

theorem C3_rollback_not_persisted:
  "\<exists>w'. rollback demo_in_progress = Inr w' \<and>
        getCurrentState w' = Some \<lparr>name = ''initial'', isActive = True\<rparr> \<and>
        heap w' 1 = \<lparr>name = ''in_progress'', isActive = False\<rparr> \<and>
        previousState w' = None \<and>
        trace w' = trace demo_in_progress @ [StateChangeLogged ''rollback'' ''initial''] \<and>
        stored ''currentState'' w' = Some ''in_progress''"
  by (simp add: demo_defs op_defs stored_def getCurrentState_def)

section \<open>An edge to an unknown State\<close>

text \<open>
  Claim C4: a transition over an edge whose guard passes and whose target names no State
  fails with \<open>UnknownState\<close>, triggers rollback and leaves the prior State active. In the
  code a failed lookup of the target raises nothing: in the scenario of the test "should
  handle errors and rollback" the call completes, no error reaches \<open>ErrorHandler\<close>, the
  change to \<open>invalid_state\<close> is logged and sent to the webhook, and the current State
  \<open>in_progress\<close> is left with \<open>isActive = false\<close>, so no State is active.
\<close>

theorem C4_unknown_target_no_error:
  "fst (transitionTo ''invalid_state'' 0 demo_faulty) = Inr () \<and>
   trace (snd (transitionTo ''invalid_state'' 0 demo_faulty)) =
     trace demo_faulty @
       [StateChangeLogged ''in_progress'' ''invalid_state'',
        WebhookSent ''http://webhook.url'' (TransitionPayload ''in_progress'' ''invalid_state''),
        EventTriggerLogged ''transitionToinvalid_state'',
        WebhookSent ''http://webhook.url'' (EventPayload ''transitionToinvalid_state'')] \<and>
   getCurrentState (snd (transitionTo ''invalid_state'' 0 demo_faulty)) =
     Some \<lparr>name = ''in_progress'', isActive = False\<rparr> \<and>
   activeStates (snd (transitionTo ''invalid_state'' 0 demo_faulty)) = []"
  by (simp add: demo_defs op_defs getCurrentState_def activeStates_def)

section \<open>A rejected transition\<close>

text \<open>
  Claim C5 says that \<open>transitionTo\<close> raises \<open>InvalidTransition\<close> when no edge matches or
  the guard is false. In its own scenario (state \<open>initial\<close>, the edge to \<open>in_progress\<close>
  guarded by an always-false rule) the promise of \<open>transitionTo('in_progress')\<close> is
  rejected with \<open>NoPreviousState\<close>: the \<open>InvalidTransition\<close> error is caught inside, and the
  rollback that follows has nothing to restore.
\<close>

theorem C5_rejected_with_NoPreviousState:
  "getCurrentState demo_guarded = Some \<lparr>name = ''initial'', isActive = True\<rparr> \<and>
   passingEdge ''in_progress'' demo_guarded = False \<and>
   fst (transitionTo ''in_progress'' 0 demo_guarded) = Inl NoPreviousState \<and>
   fst (transitionTo ''in_progress'' 0 demo_guarded) \<noteq> Inl (InvalidTransition ''in_progress'')"
  by (simp add: demo_defs op_defs getCurrentState_def passingEdge_def)

text \<open>
  Claim C5, amended. When \<open>transitionTo(target)\<close> finds no edge from the current State to
  \<open>target\<close>, or finds one whose guard returns false, \<open>InvalidTransition(target)\<close> is thrown
  inside its \<open>try\<close> block, reported to \<open>ErrorHandler.handleError\<close>, and \<open>rollback()\<close> is
  called. With no previous State the call is rejected with \<open>NoPreviousState\<close> and only the
  report is added (the current State is as before); with a previous State the call
  completes and the previous State is current and active again.
\<close>

theorem C5_invalid_transition_reported:
  assumes "findTransition s w = None \<or>
           (\<exists>t. findTransition s w = Some t \<and> canTransition t w = Inr False)"
  shows "transitionTo_try s d w = Inl (InvalidTransition s) \<and>
         (case previousState w of
            None \<Rightarrow>
              transitionTo s d w =
                (Inl NoPreviousState, w\<lparr>trace := trace w @ [ErrorHandled (InvalidTransition s)]\<rparr>)
          | Some p \<Rightarrow>
              (case currentState w of
                 None \<Rightarrow> fst (transitionTo s d w) = Inl NullDereference
               | Some c \<Rightarrow>
                   transitionTo s d w =
                     (Inr (),
                      w\<lparr>heap := setActive p True (setActive c False (heap w)),
                        currentState := Some p, previousState := None,
                        trace := trace w @ [ErrorHandled (InvalidTransition s),
                                            StateChangeLogged ''rollback'' (name (heap w p))]\<rparr>)))"
proof -
  from assms have t: "transitionTo_try s d w = Inl (InvalidTransition s)"
    by (auto simp: transitionTo_try_def)
  show ?thesis
    using t
    by (simp add: transitionTo_def handleError_def emit_def rollback_def logStateChange_def
        Let_def split: option.splits)
qed

theorem C5_invalid_transition_reported_witness:
  "(\<exists>t. findTransition ''in_progress'' demo_guarded = Some t \<and>
        canTransition t demo_guarded = Inr False) \<and>
   previousState demo_guarded = None \<and>
   transitionTo_try ''in_progress'' 0 demo_guarded = Inl (InvalidTransition ''in_progress'') \<and>
   fst (transitionTo ''in_progress'' 0 demo_guarded) = Inl NoPreviousState \<and>
   trace (snd (transitionTo ''in_progress'' 0 demo_guarded)) =
     [ErrorHandled (InvalidTransition ''in_progress'')] \<and>
   map_option name (getCurrentState (snd (transitionTo ''in_progress'' 0 demo_guarded))) =
     Some ''initial'' \<and>
   findTransition ''review'' demo_in_progress = None \<and>
   previousState demo_in_progress = Some 0 \<and>
   fst (transitionTo ''review'' 0 demo_in_progress) = Inr () \<and>
   getCurrentState (snd (transitionTo ''review'' 0 demo_in_progress)) =
     Some \<lparr>name = ''initial'', isActive = True\<rparr>"
proof -
  have g: "\<exists>t. findTransition ''in_progress'' demo_guarded = Some t \<and>
        canTransition t demo_guarded = Inr False"
    by (simp add: demo_defs op_defs)
  have p: "previousState demo_guarded = None"
    by (simp add: demo_defs op_defs)
  have t: "trace demo_guarded = []"
    by (simp add: demo_defs op_defs)
  have c: "map_option name (getCurrentState demo_guarded) = Some ''initial''"
    by (simp add: demo_defs op_defs getCurrentState_def)
  from C5_invalid_transition_reported [of "''in_progress''" demo_guarded 0] g p
  have "transitionTo_try ''in_progress'' 0 demo_guarded = Inl (InvalidTransition ''in_progress'') \<and>
     transitionTo ''in_progress'' 0 demo_guarded =
       (Inl NoPreviousState,
        demo_guarded\<lparr>trace := trace demo_guarded @ [ErrorHandled (InvalidTransition ''in_progress'')]\<rparr>)"
    by simp
  with g p t c have first:
    "transitionTo_try ''in_progress'' 0 demo_guarded = Inl (InvalidTransition ''in_progress'') \<and>
     fst (transitionTo ''in_progress'' 0 demo_guarded) = Inl NoPreviousState \<and>
     trace (snd (transitionTo ''in_progress'' 0 demo_guarded)) =
       [ErrorHandled (InvalidTransition ''in_progress'')] \<and>
     map_option name (getCurrentState (snd (transitionTo ''in_progress'' 0 demo_guarded))) =
       Some ''initial''"
    by (simp add: getCurrentState_def)
  have n: "findTransition ''review'' demo_in_progress = None"
    by (simp add: demo_defs op_defs)
  have q: "previousState demo_in_progress = Some 0" and r: "currentState demo_in_progress = Some 1"
    by (simp_all add: demo_defs op_defs)
  have h: "heap demo_in_progress 0 = \<lparr>name = ''initial'', isActive = False\<rparr>"
    by (simp add: demo_defs op_defs)
  from C5_invalid_transition_reported [of "''review''" demo_in_progress 0] n q r h
  have second: "fst (transitionTo ''review'' 0 demo_in_progress) = Inr () \<and>
     getCurrentState (snd (transitionTo ''review'' 0 demo_in_progress)) =
       Some \<lparr>name = ''initial'', isActive = True\<rparr>"
    by (simp add: getCurrentState_def setActive_def)
  from g p first n q second show ?thesis by simp
qed

section \<open>A delayed transition\<close>




section \<open>Rollback is usable once\<close>

text \<open>
  Claim C7 (invariant I2). After a successful \<open>rollback()\<close> the \<open>previousState\<close> pointer is
  null, and a second \<open>rollback()\<close> right after it throws \<open>NoPreviousState\<close>. The error is
  not caught anywhere: a direct call throws it, and a \<open>transitionTo\<close> whose \<open>try\<close> block
  fails in that state is rejected with it.
\<close>

theorem C7_rollback_once:
  assumes "rollback w = Inr w'"
  shows "previousState w' = None \<and> rollback w' = Inl NoPreviousState \<and>
         (\<forall>s d. (\<exists>e. transitionTo_try s d w' = Inl e) \<longrightarrow>
                fst (transitionTo s d w') = Inl NoPreviousState)"
proof -
  from assms have p: "previousState w' = None"
    by (auto simp: rollback_def logStateChange_def emit_def Let_def split: option.splits)
  then have r: "rollback w' = Inl NoPreviousState"
    by (simp add: rollback_def)
  from p have "fst (transitionTo s d w') = Inl NoPreviousState"
    if "transitionTo_try s d w' = Inl e" for s d e
    using that by (simp add: transitionTo_def rollback_def handleError_def emit_def)
  with p r show ?thesis by blast
qed

theorem C7_rollback_once_witness:
  "(\<exists>w'. rollback demo_in_progress = Inr w') \<and>
   previousState (projr (rollback demo_in_progress)) = None \<and>
   rollback (projr (rollback demo_in_progress)) = Inl NoPreviousState \<and>
   (\<exists>e. transitionTo_try ''completed'' 0 (projr (rollback demo_in_progress)) = Inl e) \<and>
   fst (transitionTo ''completed'' 0 (projr (rollback demo_in_progress))) = Inl NoPreviousState"
proof -
  have r: "rollback demo_in_progress = Inr (projr (rollback demo_in_progress))"
    by (simp add: demo_defs op_defs)
  have e: "\<exists>e. transitionTo_try ''completed'' 0 (projr (rollback demo_in_progress)) = Inl e"
    by (simp add: demo_defs op_defs)
  from C7_rollback_once [OF r] r e show ?thesis by metis
qed

section \<open>Cancelling a timer\<close>

text \<open>
  Claim C8. \<open>clearTimer\<close> called twice in a row for a target name leaves the manager (its
  \<open>timers\<close> dictionary and the pending timeouts) as one call does, and for a name with no
  entry in \<open>timers\<close> it changes nothing and throws nothing.
\<close>

theorem C8_clearTimer_idempotent:
  "clearTimer s (clearTimer s w) = clearTimer s w \<and>
   (timers w s = None \<longrightarrow> clearTimer s w = w)"
  by (simp add: clearTimer_def clearTimeout_def split: option.splits)

theorem C8_clearTimer_idempotent_witness:
  "timers demo ''completed'' = None \<and> clearTimer ''completed'' demo = demo \<and>
   timers (setTimer ''completed'' 500 demo) ''completed'' = Some 0 \<and>
   clearTimer ''completed'' (clearTimer ''completed'' (setTimer ''completed'' 500 demo)) =
     clearTimer ''completed'' (setTimer ''completed'' 500 demo) \<and>
   pending (clearTimer ''completed'' (setTimer ''completed'' 500 demo)) = []"
proof -
  have n: "timers demo ''completed'' = None"
    by (simp add: demo_defs op_defs)
  have t: "timers (setTimer ''completed'' 500 demo) ''completed'' = Some 0"
    by (simp add: demo_defs op_defs)
  have p: "pending (clearTimer ''completed'' (setTimer ''completed'' 500 demo)) = []"
    by (simp add: demo_defs op_defs)
  from C8_clearTimer_idempotent [of "''completed''" demo]
    C8_clearTimer_idempotent [of "''completed''" "setTimer ''completed'' 500 demo"] n t p
  show ?thesis by simp
qed

section \<open>Version round trip\<close>

text \<open>
  Claim C9. With the memory backend, \<open>saveVersion(v)\<close> stores \<open>v\<close> under the key
  \<open>version\<close>, the following \<open>loadVersion()\<close> completes, and \<open>getVersion()\<close> then returns
  \<open>v\<close>, for every string \<open>v\<close> (the empty one included).
\<close>

theorem C9_version_roundtrip:
  assumes "storage w = MemoryStorage m"
  shows "stored ''version'' (saveVersion v w) = Some v \<and>
         (\<exists>w'. loadVersion (saveVersion v w) = Inr w' \<and> getVersion w' = Some v)"
  using assms
  by (simp add: stored_def saveVersion_def loadVersion_def setVersion_def getVersion_def
      storage_set_def storage_get_def Let_def)

theorem C9_version_roundtrip_witness:
  "storage demo = MemoryStorage [''currentState'' \<mapsto> ''initial''] \<and>
   stored ''version'' (saveVersion ''2.0.0'' demo) = Some ''2.0.0'' \<and>
   (\<exists>w'. loadVersion (saveVersion ''2.0.0'' demo) = Inr w' \<and> getVersion w' = Some ''2.0.0'')"
proof -
  have m: "storage demo = MemoryStorage [''currentState'' \<mapsto> ''initial'']"
    by (simp add: demo_defs op_defs)
  from C9_version_roundtrip [OF m, of "''2.0.0''"] m show ?thesis by simp
qed

section \<open>The first State added\<close>




end
